theory Spec2Isabelle
  imports Main
begin

text \<open>
  The contact form of the portfolio site: the submit handler of the page
  (\<^verbatim>\<open>assets/js/main.js\<close>) and the \<^verbatim>\<open>POST /api/contact\<close> endpoint that the backend guide
  gives as its example implementation. Definitions come first, the properties after.
\<close>

section \<open>Text\<close>

text \<open>
  JavaScript strings are modelled as \<^typ>\<open>string\<close>; a character stands for the code
  point of the same number (U+0000 to U+00FF). In that range the white space that
  \<^verbatim>\<open>String.prototype.trim\<close> and the regular-expression class \<^verbatim>\<open>\s\<close> recognise is
  TAB, LF, VT, FF, CR, SPACE and NO-BREAK SPACE.
\<close>

definition is_space :: "char \<Rightarrow> bool" where
  "is_space c =
     (c = CHR 0x09 \<or> c = CHR 0x0A \<or> c = CHR 0x0B \<or> c = CHR 0x0C \<or> c = CHR 0x0D
      \<or> c = CHR 0x20 \<or> c = CHR 0xA0)"

definition trim :: "string \<Rightarrow> string" where
  "trim s = rev (dropWhile is_space (rev (dropWhile is_space s)))"

text \<open>
  \<^verbatim>\<open>String.prototype.toLowerCase\<close> in the same range: the letters A to Z and the
  capital letters U+00C0 to U+00DE (without the multiplication sign U+00D7) move up by 32.
\<close>

definition toLowerCase_char :: "char \<Rightarrow> char" where
  "toLowerCase_char c =
     (let n = (of_char c :: nat) in
      if (65 \<le> n \<and> n \<le> 90) \<or> (192 \<le> n \<and> n \<le> 222 \<and> n \<noteq> 215)
      then char_of (n + 32) else c)"

definition toLowerCase :: "string \<Rightarrow> string" where
  "toLowerCase s = map toLowerCase_char s"

subsection \<open>The client's e-mail pattern\<close>

text \<open>
  \<^verbatim>\<open>/^[^\s@]+@[^\s@]+\.[^\s@]+$/\<close> in \<^verbatim>\<open>assets/js/main.js\<close>: an anchored sequence of
  single characters and one-or-more repetitions of a character class. \<open>matches\<close> is the
  backtracking matcher of such a sequence against the whole subject.
\<close>

datatype cclass = Lit char | NotSpaceAt

fun accepts :: "cclass \<Rightarrow> char \<Rightarrow> bool" where
  "accepts (Lit c) x = (x = c)"
| "accepts NotSpaceAt x = (\<not> is_space x \<and> x \<noteq> CHR ''@'')"

datatype item = Once cclass | Many cclass

fun matches :: "item list \<Rightarrow> string \<Rightarrow> bool" where
  "matches [] s = (s = [])"
| "matches (Once c # p) [] = False"
| "matches (Once c # p) (x # s) = (accepts c x \<and> matches p s)"
| "matches (Many c # p) [] = False"
| "matches (Many c # p) (x # s) = (accepts c x \<and> (matches (Many c # p) s \<or> matches p s))"

definition emailRegex :: "item list" where
  "emailRegex =
     [Many NotSpaceAt, Once (Lit (CHR ''@'')), Many NotSpaceAt, Once (Lit (CHR ''.'')),
      Many NotSpaceAt]"

definition emailRegex_test :: "string \<Rightarrow> bool" where
  "emailRegex_test s = matches emailRegex s"

section \<open>The contact form of the page (assets/js/main.js)\<close>

text \<open>
  The part of the document that \<^verbatim>\<open>initContactForm\<close> and \<^verbatim>\<open>showFormMessage\<close> read and
  write. The four inputs and the submit button with its \<^verbatim>\<open>.btn-text\<close> child are taken to
  exist (the handler dereferences them without a test); \<^verbatim>\<open>#formMessage\<close> may be absent,
  which \<^verbatim>\<open>showFormMessage\<close> tests for. \<open>timers\<close> holds the delays of the pending
  \<^verbatim>\<open>setTimeout\<close> calls that hide the message, \<open>console\<close> what \<^verbatim>\<open>console.error\<close> printed.
\<close>

record input =
  "value" :: string
  defaultValue :: string

record message_box =
  textContent :: string
  className :: string
  display :: string

record page =
  name_input :: input
  email_input :: input
  subject_input :: input
  message_input :: input
  disabled :: bool
  btn_text :: string
  formMessage :: "message_box option"
  timers :: "nat list"
  console :: "string list"

record formData =
  name :: string
  email :: string
  subject :: string
  message :: string

record request =
  url :: string
  "method" :: string
  content_type :: string
  body :: formData

text \<open>
  What the awaited calls give back: \<^verbatim>\<open>fetch\<close> rejects with an error, or resolves to a
  response with its \<^verbatim>\<open>ok\<close> flag; \<^verbatim>\<open>response.json()\<close> rejects with an error, or resolves
  to the parsed body, taken to be an object, of which the handler reads \<^verbatim>\<open>message\<close>
  (\<open>None\<close> when it is missing).
\<close>

datatype json_result = ParseError string | Data "string option"

datatype fetch_outcome = Rejected string | Response bool json_result

definition showFormMessage :: "string \<Rightarrow> string \<Rightarrow> page \<Rightarrow> page" where
  "showFormMessage text type p =
     (case formMessage p of
        None \<Rightarrow> p
      | Some m \<Rightarrow>
          p\<lparr>formMessage :=
               Some (m\<lparr>textContent := text, className := ''form-message '' @ type,
                        display := ''block''\<rparr>),
            timers := timers p @ [5000]\<rparr>)"

definition reset :: "page \<Rightarrow> page" where
  "reset p =
     p\<lparr>name_input := (name_input p)\<lparr>value := defaultValue (name_input p)\<rparr>,
       email_input := (email_input p)\<lparr>value := defaultValue (email_input p)\<rparr>,
       subject_input := (subject_input p)\<lparr>value := defaultValue (subject_input p)\<rparr>,
       message_input := (message_input p)\<lparr>value := defaultValue (message_input p)\<rparr>\<rparr>"

definition get_formData :: "page \<Rightarrow> formData" where
  "get_formData p =
     \<lparr>name = trim (value (name_input p)), email = trim (value (email_input p)),
      subject = trim (value (subject_input p)), message = trim (value (message_input p))\<rparr>"

definition success_text :: string where
  "success_text = ''Message sent successfully! I'' @ [CHR 0x27] @ ''ll get back to you soon.''"

definition failure_text :: string where
  "failure_text =
     ''Sorry, there was an error sending your message. Please try again or email me directly.''"

text \<open>
  The submit handler up to its first \<^verbatim>\<open>await\<close>: either it returns early (no request), or
  it disables the button and issues the request, remembering the button's label.
\<close>

definition submit_start :: "page \<Rightarrow> page \<times> (string \<times> request) option" where
  "submit_start p =
     (let fd = get_formData p in
      if name fd = [] \<or> email fd = [] \<or> subject fd = [] \<or> message fd = []
      then (showFormMessage ''Please fill in all fields.'' ''error'' p, None)
      else if \<not> emailRegex_test (email fd)
      then (showFormMessage ''Please enter a valid email address.'' ''error'' p, None)
      else (p\<lparr>disabled := True, btn_text := ''Sending...''\<rparr>,
            Some (btn_text p,
                  \<lparr>url = ''/api/contact'', method = ''POST'',
                   content_type = ''application/json'', body = fd\<rparr>)))"

text \<open>
  The \<^verbatim>\<open>catch\<close> block, with the text of the caught error, and the \<^verbatim>\<open>finally\<close> block,
  with the label that was read before the button was disabled.
\<close>

definition catch_block :: "string \<Rightarrow> page \<Rightarrow> page" where
  "catch_block err p =
     showFormMessage failure_text ''error''
       (p\<lparr>console := console p @ [''Form submission error: '' @ err]\<rparr>)"

definition finally_block :: "string \<Rightarrow> page \<Rightarrow> page" where
  "finally_block originalBtnText p = p\<lparr>disabled := False, btn_text := originalBtnText\<rparr>"

text \<open>
  The \<^verbatim>\<open>try\<close> block after its first \<^verbatim>\<open>await\<close>, with the \<^verbatim>\<open>catch\<close> block where it throws,
  run on the page as it is when the awaited calls settle. A rejected \<^verbatim>\<open>fetch\<close> and a
  body that does not parse throw; a response that is not ok throws an error that carries
  \<^verbatim>\<open>data.message || 'Failed to send message'\<close>, the second text when the first is missing
  or empty.
\<close>

definition try_catch :: "fetch_outcome \<Rightarrow> page \<Rightarrow> page" where
  "try_catch out p =
     (case out of
        Rejected err \<Rightarrow> catch_block err p
      | Response ok (ParseError err) \<Rightarrow> catch_block err p
      | Response ok (Data m) \<Rightarrow>
          if ok then reset (showFormMessage success_text ''success'' p)
          else catch_block
                 (case m of None \<Rightarrow> ''Failed to send message''
                  | Some t \<Rightarrow> if t = [] then ''Failed to send message'' else t) p)"

definition submit_finish :: "string \<Rightarrow> fetch_outcome \<Rightarrow> page \<Rightarrow> page" where
  "submit_finish originalBtnText out p = finally_block originalBtnText (try_catch out p)"

text \<open>The whole handler, on a page that stays as the handler leaves it while it waits.\<close>

definition on_submit :: "page \<Rightarrow> fetch_outcome \<Rightarrow> page" where
  "on_submit p out =
     (case submit_start p of
        (p', None) \<Rightarrow> p'
      | (p', Some (originalBtnText, req)) \<Rightarrow> submit_finish originalBtnText out p')"

section \<open>The contact endpoint (example implementation of the backend guide)\<close>

text \<open>
  \<^verbatim>\<open>app.post('/api/contact', limiter, [ ...validators ], async (req, res) => ...)\<close>.
  Express runs the three stages in the order written: the limiter, the validation
  chains, the handler. The request body is a map from field names to text; a field
  that is absent reads as the empty text in every chain (the validation library
  converts the value of a field to a string before each step).
\<close>

type_synonym req_body = "string \<rightharpoonup> string"

fun toString :: "string option \<Rightarrow> string" where
  "toString None = []"
| "toString (Some s) = s"

subsection \<open>Validation chains\<close>

text \<open>
  A chain \<^verbatim>\<open>body(f).step1().step2()\<close> runs its steps in order on the field's value. A
  sanitizer replaces the value (and writes it back to the body); a validator that fails
  adds one error for the field, with the library's default message, and the chain goes
  on. All chains run; the errors of all of them are collected.
\<close>

datatype step = Sanitizer "string \<Rightarrow> string" | Validator "string \<Rightarrow> bool"

fun run_chain :: "string \<Rightarrow> step list \<Rightarrow> string \<Rightarrow> string \<times> (string \<times> string) list" where
  "run_chain f [] v = (v, [])"
| "run_chain f (Sanitizer g # ss) v = run_chain f ss (g v)"
| "run_chain f (Validator ok # ss) v =
     (case run_chain f ss v of
        (v', es) \<Rightarrow> (v', if ok v then es else (f, ''Invalid value'') # es))"

fun run_chains ::
  "(string \<times> step list) list \<Rightarrow> req_body \<Rightarrow> req_body \<times> (string \<times> string) list" where
  "run_chains [] b = (b, [])"
| "run_chains ((f, ss) # cs) b =
     (case run_chain f ss (toString (b f)) of
        (v, es) \<Rightarrow> (case run_chains cs (b(f \<mapsto> v)) of (b', es') \<Rightarrow> (b', es @ es')))"

definition isLength :: "nat \<Rightarrow> nat \<Rightarrow> string \<Rightarrow> bool" where
  "isLength mn mx s = (mn \<le> length s \<and> length s \<le> mx)"

text \<open>
  Modelled from the spec: \<^verbatim>\<open>normalizeEmail\<close> belongs to the validation library, which is
  not part of the sources; the specification says of it that the e-mail address is
  normalized to lowercase.
\<close>

definition normalizeEmail :: "string \<Rightarrow> string" where
  "normalizeEmail e = toLowerCase e"

text \<open>
  The four chains of the endpoint. \<^verbatim>\<open>isEmail\<close> also belongs to the validation library;
  it is a parameter of the model, so that every statement holds for any test of e-mail
  addresses.
\<close>

definition validators :: "(string \<Rightarrow> bool) \<Rightarrow> (string \<times> step list) list" where
  "validators isEmail =
     [(''name'', [Sanitizer trim, Validator (isLength 2 100)]),
      (''email'', [Validator isEmail, Sanitizer normalizeEmail]),
      (''subject'', [Sanitizer trim, Validator (isLength 5 200)]),
      (''message'', [Sanitizer trim, Validator (isLength 10 2000)])]"

definition sanitize :: "(string \<Rightarrow> bool) \<Rightarrow> req_body \<Rightarrow> req_body" where
  "sanitize isEmail b = fst (run_chains (validators isEmail) b)"

definition validation_errors ::
  "(string \<Rightarrow> bool) \<Rightarrow> req_body \<Rightarrow> (string \<times> string) list" where
  "validation_errors isEmail b = snd (run_chains (validators isEmail) b)"

subsection \<open>Responses and the handler\<close>

text \<open>
  The JSON bodies the endpoint answers with, and the HTTP status. \<open>res_message\<close> is the
  \<^verbatim>\<open>message\<close> member.
\<close>

record response =
  status :: nat
  success :: bool
  res_message :: string
  errors :: "(string \<times> string) list"
  retryAfter :: "nat option"

definition validation_error :: "(string \<times> string) list \<Rightarrow> response" where
  "validation_error errs =
     \<lparr>status = 400, success = False, res_message = ''Validation error'', errors = errs,
      retryAfter = None\<rparr>"

definition message_sent :: response where
  "message_sent =
     \<lparr>status = 200, success = True, res_message = ''Message sent successfully'', errors = [],
      retryAfter = None\<rparr>"

definition sending_error :: response where
  "sending_error =
     \<lparr>status = 500, success = False, res_message = ''Error sending message'', errors = [],
      retryAfter = None\<rparr>"

text \<open>
  The handler answers 400 when the chains left errors. Otherwise it runs its \<^verbatim>\<open>try\<close>
  block, which holds the comment \<^verbatim>\<open>// Email sending logic here\<close>, where the source has
  no statement, and the call of \<^verbatim>\<open>res.json\<close> that answers 200. When a statement of the
  block throws, the \<^verbatim>\<open>catch\<close> block answers 500 without reading the error. \<open>tried\<close> says
  what the block did: as the source is written, with nothing at the comment, it completes.
\<close>

datatype try_result = Completes | Throws string

definition handler :: "try_result \<Rightarrow> (string \<times> string) list \<Rightarrow> response" where
  "handler tried errs =
     (if errs \<noteq> [] then validation_error errs
      else (case tried of Completes \<Rightarrow> message_sent | Throws err \<Rightarrow> sending_error))"

subsection \<open>The notification channel\<close>




subsection \<open>The rate limiter\<close>

text \<open>
  \<^verbatim>\<open>rateLimit({ windowMs: 60 * 60 * 1000, max: 5 })\<close>: the two numbers are the guide's.
\<close>

definition windowMs :: nat where
  "windowMs = 60 * 60 * 1000"

definition limiter_max :: nat where
  "limiter_max = 5"

text \<open>
  Modelled from the spec: the rate-limiting library is not part of the sources. The
  specification keeps, for each source address, a window with its start time and the
  count of the requests observed in it. Times are in milliseconds, as \<open>windowMs\<close> is.
\<close>

record rate_limit_window =
  windowStart :: nat
  count :: nat

type_synonym store = "string \<rightharpoonup> rate_limit_window"

datatype limit_result = Pass | Limited nat

text \<open>
  Modelled from the spec: a lookup finds the window of the address or creates it; a
  window as old as the window length is treated as expired and created anew.
\<close>

definition lookup_window :: "store \<Rightarrow> string \<Rightarrow> nat \<Rightarrow> rate_limit_window" where
  "lookup_window st a now =
     (case st a of
        None \<Rightarrow> \<lparr>windowStart = now, count = 0\<rparr>
      | Some w \<Rightarrow>
          if windowStart w + windowMs \<le> now then \<lparr>windowStart = now, count = 0\<rparr> else w)"

text \<open>
  Modelled from the spec: the seconds until the window's oldest counted request, the one
  that started the window, expires. A part of a second counts as a second.
\<close>

definition retryAfterSeconds :: "rate_limit_window \<Rightarrow> nat \<Rightarrow> nat" where
  "retryAfterSeconds w now = (windowStart w + windowMs - now + 999) div 1000"

text \<open>
  Modelled from the spec: a request that finds the count at the ceiling is rejected with
  the seconds to wait; any other request is let through and counted.
\<close>

definition limiter :: "store \<Rightarrow> string \<Rightarrow> nat \<Rightarrow> limit_result \<times> store" where
  "limiter st a now =
     (let w = lookup_window st a now in
      if limiter_max \<le> count w then (Limited (retryAfterSeconds w now), st(a \<mapsto> w))
      else (Pass, st(a \<mapsto> w\<lparr>count := count w + 1\<rparr>)))"

text \<open>
  Modelled from the spec: the answer of a rejected request, sent by the limiter itself.
  Its body is the one the API specification documents for status 429.
\<close>

definition too_many_requests :: "nat \<Rightarrow> response" where
  "too_many_requests r =
     \<lparr>status = 429, success = False,
      res_message = ''Too many requests. Please try again later.'', errors = [],
      retryAfter = Some r\<rparr>"

subsection \<open>The route\<close>

text \<open>
  A request from address \<open>a\<close> at time \<open>now\<close> with body \<open>b\<close>: the limiter first, then the
  chains and the handler, whose \<^verbatim>\<open>try\<close> block does \<open>tried\<close>. The result is the answer and
  the limiter's new store.
\<close>

definition post_contact ::
  "(string \<Rightarrow> bool) \<Rightarrow> store \<Rightarrow> string \<Rightarrow> nat \<Rightarrow> req_body \<Rightarrow> try_result
     \<Rightarrow> response \<times> store" where
  "post_contact isEmail st a now b tried =
     (case limiter st a now of
        (Limited r, st') \<Rightarrow> (too_many_requests r, st')
      | (Pass, st') \<Rightarrow> (handler tried (snd (run_chains (validators isEmail) b)), st'))"

text \<open>A sequence of requests, each served on the store the one before left.\<close>

fun run ::
  "(string \<Rightarrow> bool) \<Rightarrow> store \<Rightarrow> (string \<times> nat \<times> req_body \<times> try_result) list
     \<Rightarrow> response list \<times> store" where
  "run isEmail st [] = ([], st)"
| "run isEmail st ((a, now, b, tried) # rs) =
     (case post_contact isEmail st a now b tried of
        (r, st') \<Rightarrow> (case run isEmail st' rs of (out, st'') \<Rightarrow> (r # out, st'')))"

section \<open>Notions used in the statements\<close>

subsection \<open>The page\<close>

text \<open>
  The two tests of the submit handler that end it before the request: a trimmed value is
  empty, or the trimmed e-mail value does not match the pattern.
\<close>

definition blocked :: "formData \<Rightarrow> bool" where
  "blocked fd =
     (name fd = [] \<or> email fd = [] \<or> subject fd = [] \<or> message fd = []
      \<or> \<not> emailRegex_test (email fd))"

definition inputs :: "page \<Rightarrow> input \<times> input \<times> input \<times> input" where
  "inputs p = (name_input p, email_input p, subject_input p, message_input p)"

text \<open>\<^verbatim>\<open>response.ok\<close> of an outcome; a rejected \<^verbatim>\<open>fetch\<close> has no response.\<close>

fun response_ok :: "fetch_outcome \<Rightarrow> bool" where
  "response_ok (Rejected err) = False"
| "response_ok (Response ok j) = ok"

text \<open>
  The text of the error that an outcome makes the \<^verbatim>\<open>try\<close> block throw, if it does: the
  error of the rejected \<^verbatim>\<open>fetch\<close> or of the body that does not parse, or, for a response
  that is not ok, the \<^verbatim>\<open>message\<close> of the server's body (the fixed text when it has none).
\<close>

fun thrown :: "fetch_outcome \<Rightarrow> string option" where
  "thrown (Rejected err) = Some err"
| "thrown (Response ok (ParseError err)) = Some err"
| "thrown (Response ok (Data m)) =
     (if ok then None
      else Some (case m of None \<Rightarrow> ''Failed to send message''
                 | Some t \<Rightarrow> if t = [] then ''Failed to send message'' else t))"

subsection \<open>The endpoint\<close>

text \<open>
  The fields that violate their chain, in the order of the chains: what each chain
  tests, written per field.
\<close>

definition fields :: "string list" where
  "fields = [''name'', ''email'', ''subject'', ''message'']"

definition field_ok :: "(string \<Rightarrow> bool) \<Rightarrow> req_body \<Rightarrow> string \<Rightarrow> bool" where
  "field_ok isEmail b f =
     (if f = ''name'' then isLength 2 100 (trim (toString (b f)))
      else if f = ''email'' then isEmail (toString (b f))
      else if f = ''subject'' then isLength 5 200 (trim (toString (b f)))
      else isLength 10 2000 (trim (toString (b f))))"

definition offending :: "(string \<Rightarrow> bool) \<Rightarrow> req_body \<Rightarrow> string list" where
  "offending isEmail b = filter (\<lambda>f. \<not> field_ok isEmail b f) fields"

text \<open>
  The pattern that the API specification and the data model document for a name, and
  that no chain tests: letters, spaces, hyphens and apostrophes only.
\<close>

definition is_letter :: "char \<Rightarrow> bool" where
  "is_letter c =
     (let n = (of_char c :: nat) in
      (65 \<le> n \<and> n \<le> 90) \<or> (97 \<le> n \<and> n \<le> 122) \<or> (192 \<le> n \<and> n \<noteq> 215 \<and> n \<noteq> 247))"

definition name_pattern :: "string \<Rightarrow> bool" where
  "name_pattern s =
     list_all (\<lambda>c. is_letter c \<or> c = CHR '' '' \<or> c = CHR ''-'' \<or> c = CHR 0x27) s"

text \<open>
  An address has no live window at a time when it has no window or an expired one; the
  quota it has used is the count of the window a lookup finds.
\<close>

definition no_live_window :: "store \<Rightarrow> string \<Rightarrow> nat \<Rightarrow> bool" where
  "no_live_window st a now =
     (case st a of None \<Rightarrow> True | Some w \<Rightarrow> windowStart w + windowMs \<le> now)"

definition quota_used :: "store \<Rightarrow> string \<Rightarrow> nat \<Rightarrow> nat" where
  "quota_used st a now = count (lookup_window st a now)"






subsection \<open>Concrete inputs\<close>

definition example_page :: page where
  "example_page =
     \<lparr>name_input = \<lparr>value = '' Jane Doe '', defaultValue = ''''\<rparr>,
      email_input = \<lparr>value = ''jane@example.com'', defaultValue = ''''\<rparr>,
      subject_input = \<lparr>value = ''Hello there'', defaultValue = ''''\<rparr>,
      message_input = \<lparr>value = ''This is a test message.'', defaultValue = ''''\<rparr>,
      disabled = False, btn_text = ''Send Message'',
      formMessage = Some \<lparr>textContent = '''', className = ''form-message'', display = ''none''\<rparr>,
      timers = [], console = []\<rparr>"

definition example_request :: request where
  "example_request =
     \<lparr>url = ''/api/contact'', method = ''POST'', content_type = ''application/json'',
      body = \<lparr>name = ''Jane Doe'', email = ''jane@example.com'',
              subject = ''Hello there'', message = ''This is a test message.''\<rparr>\<rparr>"

definition bad_email_page :: page where
  "bad_email_page =
     example_page\<lparr>email_input := \<lparr>value = ''invalid-email'', defaultValue = ''''\<rparr>\<rparr>"

text \<open>A page without \<^verbatim>\<open>#formMessage\<close>, whose name input holds blanks only.\<close>

definition bare_page :: page where
  "bare_page =
     \<lparr>name_input = \<lparr>value = ''   '', defaultValue = ''''\<rparr>,
      email_input = \<lparr>value = ''jane@example.com'', defaultValue = ''''\<rparr>,
      subject_input = \<lparr>value = ''Hello there'', defaultValue = ''''\<rparr>,
      message_input = \<lparr>value = ''This is a test message.'', defaultValue = ''''\<rparr>,
      disabled = False, btn_text = ''Send Message'',
      formMessage = None, timers = [], console = []\<rparr>"

definition jane :: req_body where
  "jane = [''name'' \<mapsto> ''Jane Doe'', ''email'' \<mapsto> ''jane@example.com'',
           ''subject'' \<mapsto> ''Hello there'', ''message'' \<mapsto> ''This is a test message.'']"

text \<open>The guide's test of a missing field: no message, and a subject of four characters.\<close>

definition incomplete :: req_body where
  "incomplete = [''name'' \<mapsto> ''Test User'', ''email'' \<mapsto> ''test@example.com'',
                 ''subject'' \<mapsto> ''Test'']"


text \<open>A body whose name is outside the documented pattern.\<close>

definition numbered :: req_body where
  "numbered = [''name'' \<mapsto> ''12345 <b>!!'', ''email'' \<mapsto> ''jane@example.com'',
               ''subject'' \<mapsto> ''Hello there'', ''message'' \<mapsto> ''This is a test message.'']"

text \<open>A body whose subject, without its markup, is the two characters \<open>Hi\<close>.\<close>

definition tagged :: req_body where
  "tagged = [''name'' \<mapsto> ''Jane Doe'', ''email'' \<mapsto> ''jane@example.com'',
             ''subject'' \<mapsto> ''<b>Hi</b>'', ''message'' \<mapsto> ''This is a test message.'']"



definition full_window :: store where
  "full_window = [''203.0.113.7'' \<mapsto> \<lparr>windowStart = 0, count = 5\<rparr>]"


definition six_requests :: "(string \<times> nat \<times> req_body \<times> try_result) list" where
  "six_requests =
     [(''203.0.113.7'', 0, jane, Completes), (''203.0.113.7'', 600000, jane, Completes),
      (''203.0.113.7'', 1200000, jane, Completes), (''203.0.113.7'', 1800000, jane, Completes),
      (''203.0.113.7'', 2400000, jane, Completes), (''203.0.113.7'', 3000000, jane, Completes)]"


section \<open>The submit handler of the page\<close>

subsection \<open>What each block changes\<close>

lemma showFormMessage_frame [simp]:
  "inputs (showFormMessage t ty p) = inputs p"
  "disabled (showFormMessage t ty p) = disabled p"
  "btn_text (showFormMessage t ty p) = btn_text p"
  "console (showFormMessage t ty p) = console p"
  by (simp_all add: showFormMessage_def inputs_def split: option.split)

lemma showFormMessage_box:
  "formMessage p = Some m \<Longrightarrow>
   formMessage (showFormMessage t ty p) =
     Some (m\<lparr>textContent := t, className := ''form-message '' @ ty, display := ''block''\<rparr>)"
  by (simp add: showFormMessage_def)

lemma showFormMessage_absent: "formMessage p = None \<Longrightarrow> showFormMessage t ty p = p"
  by (simp add: showFormMessage_def)

lemma catch_block_frame [simp]: "inputs (catch_block e p) = inputs p"
  by (simp add: catch_block_def) (simp add: inputs_def)

lemma finally_block_frame [simp]:
  "inputs (finally_block t p) = inputs p"
  "formMessage (finally_block t p) = formMessage p"
  "console (finally_block t p) = console p"
  "\<not> disabled (finally_block t p)"
  "btn_text (finally_block t p) = t"
  by (simp_all add: finally_block_def inputs_def)

lemma try_catch_not_ok: "\<not> response_ok out \<Longrightarrow> inputs (try_catch out p) = inputs p"
  by (cases out) (auto simp: try_catch_def split: json_result.split)

lemma showFormMessage_map:
  "formMessage (showFormMessage t ty p) =
     map_option (\<lambda>m. m\<lparr>textContent := t, className := ''form-message '' @ ty,
                          display := ''block''\<rparr>) (formMessage p)"
  by (simp add: showFormMessage_def split: option.split)

lemma reset_frame [simp]:
  "disabled (reset p) = disabled p"
  "btn_text (reset p) = btn_text p"
  "formMessage (reset p) = formMessage p"
  "console (reset p) = console p"
  by (simp_all add: reset_def)

lemma catch_block_button [simp]:
  "disabled (catch_block e p) = disabled p"
  "btn_text (catch_block e p) = btn_text p"
  by (simp_all add: catch_block_def)

lemma try_catch_thrown:
  "try_catch out q =
     (case thrown out of
        None \<Rightarrow> reset (showFormMessage success_text ''success'' q)
      | Some err \<Rightarrow> catch_block err q)"
  by (cases out rule: thrown.cases) (simp_all add: try_catch_def)

lemma try_catch_button:
  "disabled (try_catch out q) = disabled q"
  "btn_text (try_catch out q) = btn_text q"
  by (simp_all add: try_catch_thrown split: option.split)

lemma try_catch_box:
  "formMessage (try_catch out q) =
     map_option
       (\<lambda>m. m\<lparr>textContent := (if thrown out = None then success_text else failure_text),
               className := (if thrown out = None then ''form-message success''
                             else ''form-message error''),
               display := ''block''\<rparr>)
       (formMessage q)"
  by (cases "thrown out")
     (simp_all add: try_catch_thrown catch_block_def showFormMessage_map)

lemma try_catch_console:
  "console (try_catch out q) =
     console q @ (case thrown out of None \<Rightarrow> []
                  | Some err \<Rightarrow> [''Form submission error: '' @ err])"
  by (cases "thrown out") (simp_all add: try_catch_thrown catch_block_def)

subsection \<open>The two ways through the first part\<close>

lemma submit_start_blocked:
  "blocked (get_formData p) \<Longrightarrow>
   submit_start p =
     (showFormMessage
        (if name (get_formData p) = [] \<or> email (get_formData p) = [] \<or>
            subject (get_formData p) = [] \<or> message (get_formData p) = []
         then ''Please fill in all fields.'' else ''Please enter a valid email address.'')
        ''error'' p, None)"
  by (auto simp: submit_start_def Let_def blocked_def)

lemma submit_start_sent:
  "\<not> blocked (get_formData p) \<Longrightarrow>
   submit_start p =
     (p\<lparr>disabled := True, btn_text := ''Sending...''\<rparr>,
      Some (btn_text p,
            \<lparr>url = ''/api/contact'', method = ''POST'', content_type = ''application/json'',
             body = get_formData p\<rparr>))"
  by (auto simp: submit_start_def Let_def blocked_def)

lemma on_submit_blocked:
  "blocked (get_formData p) \<Longrightarrow> on_submit p out = fst (submit_start p)"
  by (simp add: on_submit_def submit_start_blocked)

lemma on_submit_sent:
  "\<not> blocked (get_formData p) \<Longrightarrow>
   on_submit p out =
     submit_finish (btn_text p) out (p\<lparr>disabled := True, btn_text := ''Sending...''\<rparr>)"
  by (simp add: on_submit_def submit_start_sent)

lemma inputs_reset_when_ok:
  "\<not> blocked (get_formData p) \<Longrightarrow>
   value (name_input (on_submit p (Response True (Data m)))) = defaultValue (name_input p)"
  by (simp add: on_submit_sent submit_finish_def try_catch_def reset_def
        finally_block_def showFormMessage_def split: option.split)

subsection \<open>The concrete pages\<close>

lemma submit_start_example:
  "submit_start example_page =
     (example_page\<lparr>disabled := True, btn_text := ''Sending...''\<rparr>,
      Some (''Send Message'', example_request))"
  by (simp add: submit_start_def example_page_def example_request_def get_formData_def trim_def
        is_space_def emailRegex_test_def emailRegex_def)

lemma not_blocked_example: "\<not> blocked (get_formData example_page)"
  by (simp add: blocked_def get_formData_def example_page_def trim_def
        is_space_def emailRegex_test_def emailRegex_def)

lemma blocked_bad_email: "blocked (get_formData bad_email_page)"
  by (simp add: blocked_def get_formData_def bad_email_page_def example_page_def trim_def
        is_space_def emailRegex_test_def emailRegex_def)

subsection \<open>Claims about the page\<close>

text \<open>
  C7, as amended. For every submission that passes the two tests of the handler, the
  handler issues the POST to \<^verbatim>\<open>/api/contact\<close> with the trimmed values and has disabled the
  submit button when it does; the \<^verbatim>\<open>try\<close> and \<^verbatim>\<open>catch\<close> blocks leave the button as it is,
  so it stays disabled until the \<^verbatim>\<open>finally\<close> block enables it. When the page has the
  \<^verbatim>\<open>#formMessage\<close> element, the handler shows in it one of two texts of its own, the
  success text when the response is ok and its body parsed, the failure text in every
  other case; when the page has no such element, nothing is shown. The \<^verbatim>\<open>message\<close> of the
  server's body is never shown: on a response that is not ok it is appended to the
  console, after \<^verbatim>\<open>Form submission error:\<close>, and is nowhere else on the page the handler
  leaves.
\<close>

theorem sent_form_shows_fixed_text:
  assumes "\<not> blocked (get_formData p)"
  shows "submit_start p =
           (p\<lparr>disabled := True, btn_text := ''Sending...''\<rparr>,
            Some (btn_text p,
                  \<lparr>url = ''/api/contact'', method = ''POST'', content_type = ''application/json'',
                   body = get_formData p\<rparr>))
     \<and> disabled (try_catch out q) = disabled q \<and> btn_text (try_catch out q) = btn_text q
     \<and> \<not> disabled (on_submit p out)
     \<and> formMessage (on_submit p out) =
         map_option
           (\<lambda>m. m\<lparr>textContent := (if thrown out = None then success_text else failure_text),
                   className := (if thrown out = None then ''form-message success''
                                 else ''form-message error''),
                   display := ''block''\<rparr>)
           (formMessage p)
     \<and> console (on_submit p out) =
         console p @ (case thrown out of None \<Rightarrow> []
                      | Some err \<Rightarrow> [''Form submission error: '' @ err])
     \<and> on_submit p out =
         (case thrown out of
            None \<Rightarrow> reset (showFormMessage success_text ''success'' p)
          | Some err \<Rightarrow>
              showFormMessage failure_text ''error''
                (p\<lparr>console := console p @ [''Form submission error: '' @ err]\<rparr>))
         \<lparr>disabled := False, btn_text := btn_text p\<rparr>"
proof (intro conjI)
  show "submit_start p =
           (p\<lparr>disabled := True, btn_text := ''Sending...''\<rparr>,
            Some (btn_text p,
                  \<lparr>url = ''/api/contact'', method = ''POST'', content_type = ''application/json'',
                   body = get_formData p\<rparr>))"
    using assms by (rule submit_start_sent)
  show "disabled (try_catch out q) = disabled q" "btn_text (try_catch out q) = btn_text q"
    by (rule try_catch_button)+
  show "\<not> disabled (on_submit p out)"
    using assms by (simp add: on_submit_sent submit_finish_def)
  show "formMessage (on_submit p out) =
         map_option
           (\<lambda>m. m\<lparr>textContent := (if thrown out = None then success_text else failure_text),
                   className := (if thrown out = None then ''form-message success''
                                 else ''form-message error''),
                   display := ''block''\<rparr>)
           (formMessage p)"
    using assms by (simp add: on_submit_sent submit_finish_def try_catch_box)
  show "console (on_submit p out) =
         console p @ (case thrown out of None \<Rightarrow> []
                      | Some err \<Rightarrow> [''Form submission error: '' @ err])"
    using assms by (simp add: on_submit_sent submit_finish_def try_catch_console)
  show "on_submit p out =
         (case thrown out of
            None \<Rightarrow> reset (showFormMessage success_text ''success'' p)
          | Some err \<Rightarrow>
              showFormMessage failure_text ''error''
                (p\<lparr>console := console p @ [''Form submission error: '' @ err]\<rparr>))
         \<lparr>disabled := False, btn_text := btn_text p\<rparr>"
    using assms
    by (cases "thrown out"; cases "formMessage p")
       (simp_all add: on_submit_sent submit_finish_def try_catch_thrown finally_block_def
          catch_block_def reset_def showFormMessage_def)
qed

theorem sent_form_shows_fixed_text_witness:
  "\<not> blocked (get_formData example_page)
   \<and> snd (submit_start example_page) = Some (''Send Message'', example_request)
   \<and> disabled (fst (submit_start example_page))
   \<and> formMessage (on_submit example_page (Response False (Data (Some ''Validation error''))))
       = Some \<lparr>textContent = failure_text, className = ''form-message error'',
               display = ''block''\<rparr>
   \<and> console (on_submit example_page (Response False (Data (Some ''Validation error''))))
       = [''Form submission error: Validation error'']
   \<and> \<not> disabled (on_submit example_page (Response False (Data (Some ''Validation error''))))"
proof -
  have fm: "formMessage example_page
              = Some \<lparr>textContent = '''', className = ''form-message'', display = ''none''\<rparr>"
    and co: "console example_page = []"
    by (simp_all add: example_page_def)
  note t = sent_form_shows_fixed_text
             [OF not_blocked_example,
              of "Response False (Data (Some ''Validation error''))"]
  from t have "formMessage (on_submit example_page
                  (Response False (Data (Some ''Validation error''))))
          = Some \<lparr>textContent = failure_text, className = ''form-message error'',
                  display = ''block''\<rparr>"
    by (simp add: fm showFormMessage_map)
  moreover from t have "console (on_submit example_page
                  (Response False (Data (Some ''Validation error''))))
          = [''Form submission error: Validation error'']"
    by (simp add: co showFormMessage_map)
  moreover from t have "\<not> disabled (on_submit example_page
                  (Response False (Data (Some ''Validation error''))))"
    by simp
  ultimately show ?thesis
    using not_blocked_example by (simp add: submit_start_example)
qed

text \<open>
  C7 as stated fails: the page sends the form, the server answers 429 with its message,
  and the page shows its own failure text; the server answers 200 with its message, and
  the page shows its own success text.
\<close>

theorem server_message_counterexample:
  "snd (submit_start example_page) = Some (''Send Message'', example_request)
   \<and> map_option textContent
        (formMessage (on_submit example_page
           (Response False (Data (Some ''Too many requests. Please try again later.'')))))
       = Some failure_text
   \<and> failure_text \<noteq> ''Too many requests. Please try again later.''
   \<and> map_option textContent
        (formMessage (on_submit example_page
           (Response True (Data (Some ''Message sent successfully'')))))
       = Some success_text
   \<and> success_text \<noteq> ''Message sent successfully''"
proof -
  have fm: "formMessage (example_page\<lparr>disabled := True, btn_text := ''Sending...''\<rparr>)
              = Some \<lparr>textContent = '''', className = ''form-message'', display = ''none''\<rparr>"
    by (simp add: example_page_def)
  show ?thesis
    using not_blocked_example
    by (simp add: submit_start_example on_submit_sent submit_finish_def try_catch_box fm
          failure_text_def success_text_def)
qed

text \<open>
  C8, as amended. For every submission in which a trimmed value is empty or the trimmed
  e-mail value does not match the pattern, the handler returns without issuing a request
  and without touching the submit button, and, when the page has the \<^verbatim>\<open>#formMessage\<close>
  element, shows one of its two error texts in it.
\<close>

theorem invalid_form_not_sent:
  assumes "blocked (get_formData p)"
  shows "snd (submit_start p) = None \<and> on_submit p out = fst (submit_start p)
     \<and> disabled (on_submit p out) = disabled p \<and> btn_text (on_submit p out) = btn_text p
     \<and> (formMessage p = Some m \<longrightarrow>
          (\<exists>t \<in> {''Please fill in all fields.'', ''Please enter a valid email address.''}.
             formMessage (on_submit p out) =
               Some (m\<lparr>textContent := t, className := ''form-message error'',
                       display := ''block''\<rparr>)))"
proof -
  have s: "snd (submit_start p) = None"
    using assms by (simp add: submit_start_blocked)
  have o: "on_submit p out = fst (submit_start p)"
    using assms by (rule on_submit_blocked)
  have b: "disabled (fst (submit_start p)) = disabled p"
    "btn_text (fst (submit_start p)) = btn_text p"
    using assms by (simp_all add: submit_start_blocked)
  have m: "formMessage p = Some m \<longrightarrow>
          (\<exists>t \<in> {''Please fill in all fields.'', ''Please enter a valid email address.''}.
             formMessage (fst (submit_start p)) =
               Some (m\<lparr>textContent := t, className := ''form-message error'',
                       display := ''block''\<rparr>))"
    using assms by (simp add: submit_start_blocked showFormMessage_box)
  from s o b m show ?thesis by simp
qed

theorem invalid_form_not_sent_witness:
  "blocked (get_formData bad_email_page) \<and> snd (submit_start bad_email_page) = None
   \<and> formMessage (on_submit bad_email_page (Rejected ''unused''))
       = Some \<lparr>textContent = ''Please enter a valid email address.'',
               className = ''form-message error'', display = ''block''\<rparr>"
proof -
  have fm: "formMessage bad_email_page
              = Some \<lparr>textContent = '''', className = ''form-message'', display = ''none''\<rparr>"
    by (simp add: bad_email_page_def example_page_def)
  have e: "name (get_formData bad_email_page) \<noteq> []" "email (get_formData bad_email_page) \<noteq> []"
    "subject (get_formData bad_email_page) \<noteq> []" "message (get_formData bad_email_page) \<noteq> []"
    by (simp_all add: get_formData_def bad_email_page_def example_page_def trim_def is_space_def)
  from invalid_form_not_sent [OF blocked_bad_email, of "Rejected ''unused''"]
  have "snd (submit_start bad_email_page) = None"
    and "on_submit bad_email_page (Rejected ''unused'') = fst (submit_start bad_email_page)"
    by simp_all
  then show ?thesis
    using blocked_bad_email fm e
    by (simp add: submit_start_blocked showFormMessage_box)
qed

text \<open>
  C8 as stated fails on a page without \<^verbatim>\<open>#formMessage\<close>: the name is blank, the handler
  returns, and the page is as it was; nothing is shown.
\<close>

theorem silent_page_counterexample:
  "name (get_formData bare_page) = [] \<and> formMessage bare_page = None
   \<and> submit_start bare_page = (bare_page, None)
   \<and> on_submit bare_page (Rejected ''unused'') = bare_page"
proof -
  have n: "name (get_formData bare_page) = []"
    by (simp add: get_formData_def bare_page_def trim_def is_space_def)
  have f: "formMessage bare_page = None"
    by (simp add: bare_page_def)
  have b: "blocked (get_formData bare_page)"
    using n by (simp add: blocked_def)
  have s: "submit_start bare_page = (bare_page, None)"
    using n by (simp add: submit_start_blocked [OF b] showFormMessage_absent [OF f])
  with n f show ?thesis
    by (simp add: on_submit_def)
qed

text \<open>
  C9. For every submission that reaches the request, the submit button is disabled and
  its label is \<^verbatim>\<open>Sending...\<close> when the request is issued; whatever the outcome (a response
  that is ok, one that is not, a rejected \<^verbatim>\<open>fetch\<close>, a body that does not parse) and
  whatever the page has become in the meantime, the handler ends with the button enabled
  and the label it had before.
\<close>

theorem button_disabled_then_restored:
  assumes "submit_start p = (p', Some (orig, req))"
  shows "disabled p' \<and> btn_text p' = ''Sending...'' \<and> orig = btn_text p
     \<and> \<not> disabled (submit_finish orig out q) \<and> btn_text (submit_finish orig out q) = btn_text p
     \<and> \<not> disabled (on_submit p out) \<and> btn_text (on_submit p out) = btn_text p"
proof (cases "blocked (get_formData p)")
  case True
  from submit_start_blocked [OF True] assms show ?thesis by simp
next
  case False
  from submit_start_sent [OF False] assms
  have p': "p' = p\<lparr>disabled := True, btn_text := ''Sending...''\<rparr>" and o: "orig = btn_text p"
    by simp_all
  show ?thesis
    using assms by (simp add: p' o on_submit_def submit_finish_def)
qed

theorem button_disabled_then_restored_witness:
  "submit_start example_page =
     (example_page\<lparr>disabled := True, btn_text := ''Sending...''\<rparr>,
      Some (''Send Message'', example_request))
   \<and> \<not> disabled (on_submit example_page (Rejected ''Failed to fetch''))
   \<and> btn_text (on_submit example_page (Rejected ''Failed to fetch'')) = ''Send Message''"
  using button_disabled_then_restored [OF submit_start_example, of "Rejected ''Failed to fetch''"]
    submit_start_example
  by (simp add: example_page_def)

text \<open>
  C10. The handler resets the form only on a response that is ok: when the response is
  not ok, or \<^verbatim>\<open>fetch\<close> was rejected, the four inputs are after the handler what they were
  before it, and the second part of the handler leaves them as it finds them.
\<close>

theorem inputs_kept_unless_ok:
  assumes "\<not> response_ok out"
  shows "inputs (on_submit p out) = inputs p \<and> inputs (submit_finish orig out q) = inputs q"
proof
  show "inputs (submit_finish orig out q) = inputs q"
    using assms by (simp add: submit_finish_def try_catch_not_ok)
  show "inputs (on_submit p out) = inputs p"
  proof (cases "blocked (get_formData p)")
    case True
    then show ?thesis by (simp add: on_submit_def submit_start_blocked)
  next
    case False
    then show ?thesis
      using assms
      by (simp add: on_submit_def submit_start_sent submit_finish_def try_catch_not_ok)
         (simp add: inputs_def)
  qed
qed

theorem inputs_kept_unless_ok_witness:
  "\<not> response_ok (Response False (Data (Some ''Validation error'')))
   \<and> inputs (on_submit example_page (Response False (Data (Some ''Validation error''))))
       = inputs example_page
   \<and> value (name_input (on_submit example_page (Response False (Data (Some ''Validation error'')))))
       = '' Jane Doe ''"
  using inputs_kept_unless_ok [of "Response False (Data (Some ''Validation error''))" example_page]
  by (simp add: inputs_def example_page_def)

section \<open>The contact endpoint\<close>

subsection \<open>Sanitizers\<close>

lemma toLowerCase_char_idem: "toLowerCase_char (toLowerCase_char c) = toLowerCase_char c"
  by (auto simp: toLowerCase_char_def Let_def)

lemma normalizeEmail_idem: "normalizeEmail (normalizeEmail e) = normalizeEmail e"
  by (simp add: normalizeEmail_def toLowerCase_def toLowerCase_char_idem)

lemma dropWhile_rev_prefix:
  assumes "dropWhile P xs = xs"
  shows "dropWhile P (rev (dropWhile P (rev xs))) = rev (dropWhile P (rev xs))"
proof (cases xs)
  case Nil
  then show ?thesis by simp
next
  case (Cons x ys)
  from assms have "xs = [] \<or> \<not> P (hd xs)"
    by (simp only: dropWhile_eq_self_iff)
  with Cons have nx: "\<not> P x"
    by simp
  then have "dropWhile P (rev xs) = dropWhile P (rev ys) @ [x]"
    by (simp add: Cons dropWhile_append3)
  with nx show ?thesis by simp
qed

lemma trim_idem: "trim (trim s) = trim s"
  by (simp add: trim_def dropWhile_rev_prefix)

subsection \<open>What the four chains compute\<close>

lemma run_chains_validators:
  "run_chains (validators isEmail) b =
     (b(''name'' \<mapsto> trim (toString (b ''name'')),
        ''email'' \<mapsto> normalizeEmail (toString (b ''email'')),
        ''subject'' \<mapsto> trim (toString (b ''subject'')),
        ''message'' \<mapsto> trim (toString (b ''message''))),
      (if isLength 2 100 (trim (toString (b ''name''))) then []
       else [(''name'', ''Invalid value'')]) @
      (if isEmail (toString (b ''email'')) then [] else [(''email'', ''Invalid value'')]) @
      (if isLength 5 200 (trim (toString (b ''subject''))) then []
       else [(''subject'', ''Invalid value'')]) @
      (if isLength 10 2000 (trim (toString (b ''message''))) then []
       else [(''message'', ''Invalid value'')]))"
  by (simp add: validators_def)

lemma sanitize_eq:
  "sanitize isEmail b =
     b(''name'' \<mapsto> trim (toString (b ''name'')),
       ''email'' \<mapsto> normalizeEmail (toString (b ''email'')),
       ''subject'' \<mapsto> trim (toString (b ''subject'')),
       ''message'' \<mapsto> trim (toString (b ''message'')))"
  by (simp add: sanitize_def run_chains_validators)

text \<open>
  The sanitizers that the chains do have, with the lowercasing that stands for
  \<^verbatim>\<open>normalizeEmail\<close>, give the same body when they are applied a second time.
\<close>

lemma sanitize_twice: "sanitize isEmail' (sanitize isEmail b) = sanitize isEmail b"
  by (simp add: sanitize_eq trim_idem normalizeEmail_idem)

lemma validation_errors_eq:
  "validation_errors isEmail b = map (\<lambda>f. (f, ''Invalid value'')) (offending isEmail b)"
  by (simp add: validation_errors_def run_chains_validators offending_def fields_def field_ok_def)

lemma missing_offends:
  assumes "b f = None" "f \<in> set fields" "\<not> isEmail []"
  shows "f \<in> set (offending isEmail b)"
proof -
  from assms(1) have ts: "toString (b f) = []"
    by simp
  have "\<not> field_ok isEmail b f"
    unfolding field_ok_def ts using assms(3) by (simp add: isLength_def trim_def)
  with assms(2) show ?thesis
    by (simp add: offending_def)
qed

subsection \<open>The handler\<close>

lemma handler_ok: "handler Completes [] = message_sent"
  by (simp add: handler_def)

lemma handler_status: "status (handler tried errs) \<noteq> 429"
  by (simp add: handler_def validation_error_def message_sent_def sending_error_def
        split: try_result.split)



subsection \<open>The dispatch\<close>



subsection \<open>The limiter\<close>

lemma windowMs_pos: "0 < windowMs"
  by (simp add: windowMs_def)

lemma lookup_window_fresh:
  "no_live_window st a now \<Longrightarrow> lookup_window st a now = \<lparr>windowStart = now, count = 0\<rparr>"
  by (simp add: no_live_window_def lookup_window_def split: option.splits)

lemma lookup_window_live:
  "st a = Some w \<Longrightarrow> now < windowStart w + windowMs \<Longrightarrow> lookup_window st a now = w"
  by (simp add: lookup_window_def)

lemma lookup_window_live_or_fresh: "now < windowStart (lookup_window st a now) + windowMs"
  by (simp add: lookup_window_def windowMs_pos split: option.split)

lemma lookup_window_again:
  "lookup_window (st(a \<mapsto> (lookup_window st a now)\<lparr>count := c\<rparr>)) a now
     = (lookup_window st a now)\<lparr>count := c\<rparr>"
  using lookup_window_live_or_fresh [of now st a]
  by (simp add: lookup_window_live)

lemma limiter_fresh:
  "no_live_window st a now \<Longrightarrow>
   limiter st a now = (Pass, st(a \<mapsto> \<lparr>windowStart = now, count = 1\<rparr>))"
  by (simp add: limiter_def lookup_window_fresh limiter_max_def)

lemma limiter_empty:
  "limiter Map.empty a now = (Pass, [a \<mapsto> \<lparr>windowStart = now, count = 1\<rparr>])"
  by (simp add: limiter_fresh no_live_window_def)

lemma limiter_live:
  "st a = Some w \<Longrightarrow> now < windowStart w + windowMs \<Longrightarrow>
   limiter st a now =
     (if limiter_max \<le> count w then (Limited (retryAfterSeconds w now), st)
      else (Pass, st(a \<mapsto> w\<lparr>count := count w + 1\<rparr>)))"
  by (auto simp: limiter_def lookup_window_live)

lemma limiter_fst_Pass:
  "fst (limiter st a now) = Pass \<Longrightarrow> limiter st a now = (Pass, snd (limiter st a now))"
  by (cases "limiter st a now") simp



lemma ceil_div_1000: "(d::nat) \<le> 1000 * ((d + 999) div 1000)"
proof -
  have "(d + 999) mod 1000 < 1000" by simp
  moreover have "1000 * ((d + 999) div 1000) + (d + 999) mod 1000 = d + 999"
    by (rule mult_div_mod_eq)
  ultimately show ?thesis by linarith
qed

lemma retryAfterSeconds_covers:
  "windowStart w + windowMs \<le> now + 1000 * retryAfterSeconds w now"
proof -
  have "windowStart w + windowMs - now
          \<le> 1000 * ((windowStart w + windowMs - now + 999) div 1000)"
    by (rule ceil_div_1000)
  then show ?thesis
    unfolding retryAfterSeconds_def by linarith
qed

lemma limiter_Limited:
  assumes "limiter st a now = (Limited r, st')"
  shows "\<exists>w. st a = Some w \<and> now < windowStart w + windowMs \<and> limiter_max \<le> count w
           \<and> r = retryAfterSeconds w now \<and> st' = st"
proof (cases "no_live_window st a now")
  case True
  with assms show ?thesis by (simp add: limiter_fresh)
next
  case False
  then obtain w where w: "st a = Some w" "now < windowStart w + windowMs"
    by (auto simp: no_live_window_def split: option.splits)
  with assms show ?thesis
    by (auto simp: limiter_live split: if_splits)
qed

lemma limiter_quota_Pass:
  "fst (limiter st a now) = Pass \<Longrightarrow>
   quota_used (snd (limiter st a now)) a now = quota_used st a now + 1"
  by (simp add: limiter_def Let_def quota_used_def lookup_window_again split: if_splits)


subsection \<open>The route\<close>

lemma post_contact_store:
  "snd (post_contact isEmail st a now b tried) = snd (limiter st a now)"
  by (simp add: post_contact_def split: prod.split limit_result.split)

lemma post_contact_Pass:
  "limiter st a now = (Pass, st') \<Longrightarrow>
   post_contact isEmail st a now b tried = (handler tried (validation_errors isEmail b), st')"
  by (simp add: post_contact_def validation_errors_def)

lemma post_contact_Limited:
  "limiter st a now = (Limited r, st') \<Longrightarrow>
   post_contact isEmail st a now b tried = (too_many_requests r, st')"
  by (simp add: post_contact_def)

lemma post_contact_status_429:
  "(status (fst (post_contact isEmail st a now b tried)) = 429)
     = (fst (limiter st a now) \<noteq> Pass)"
  by (cases "limiter st a now"; cases "fst (limiter st a now)")
     (simp_all add: post_contact_def handler_status too_many_requests_def)

lemma post_contact_fresh:
  assumes "no_live_window st a now"
  shows "post_contact isEmail st a now b tried =
           (handler tried (validation_errors isEmail b),
            st(a \<mapsto> \<lparr>windowStart = now, count = 1\<rparr>))"
  using assms by (simp add: post_contact_Pass [OF limiter_fresh])

lemma post_contact_live:
  assumes "st a = Some w" "now < windowStart w + windowMs" "count w < limiter_max"
  shows "post_contact isEmail st a now b tried =
           (handler tried (validation_errors isEmail b), st(a \<mapsto> w\<lparr>count := count w + 1\<rparr>))"
proof -
  from assms have "limiter st a now = (Pass, st(a \<mapsto> w\<lparr>count := count w + 1\<rparr>))"
    by (simp add: limiter_live)
  then show ?thesis by (simp add: post_contact_Pass)
qed


lemma post_contact_fresh_ok:
  assumes "no_live_window st a now" "validation_errors isEmail b = []"
  shows "post_contact isEmail st a now b Completes =
           (message_sent, st(a \<mapsto> \<lparr>windowStart = now, count = 1\<rparr>))"
  using assms by (simp add: post_contact_fresh handler_ok)

lemma post_contact_live_ok:
  assumes "st a = Some w" "now < windowStart w + windowMs" "count w < limiter_max"
    "validation_errors isEmail b = []"
  shows "post_contact isEmail st a now b Completes =
           (message_sent, st(a \<mapsto> w\<lparr>count := count w + 1\<rparr>))"
  using assms by (simp add: post_contact_live handler_ok)

subsection \<open>Sequences of requests\<close>




subsection \<open>The concrete requests\<close>

lemma not_emailRegex_test_Nil: "\<not> emailRegex_test []"
  by (simp add: emailRegex_test_def emailRegex_def)

lemma jane_valid: "validation_errors emailRegex_test jane = []"
  by (simp add: validation_errors_def run_chains_validators jane_def trim_def is_space_def
        isLength_def emailRegex_test_def emailRegex_def)

lemma numbered_valid: "validation_errors emailRegex_test numbered = []"
  by (simp add: validation_errors_def run_chains_validators numbered_def trim_def is_space_def
        isLength_def emailRegex_test_def emailRegex_def)

lemma numbered_name: "\<not> name_pattern ''12345 <b>!!''"
  by code_simp

lemma tagged_valid: "validation_errors emailRegex_test tagged = []"
  by (simp add: validation_errors_def run_chains_validators tagged_def trim_def is_space_def
        isLength_def emailRegex_test_def emailRegex_def)

lemma offending_incomplete: "offending emailRegex_test incomplete = [''subject'', ''message'']"
  by (simp add: offending_def fields_def field_ok_def incomplete_def trim_def is_space_def
        isLength_def emailRegex_test_def emailRegex_def)

lemma offending_empty: "offending emailRegex_test Map.empty = fields"
  by (simp add: offending_def fields_def field_ok_def trim_def is_space_def
        isLength_def emailRegex_test_def emailRegex_def)

lemma full_window_blocks:
  "post_contact emailRegex_test full_window ''203.0.113.7'' 1000 jane Completes
     = (too_many_requests 3599, full_window)"
  by (simp add: post_contact_def limiter_def lookup_window_def full_window_def windowMs_def
        limiter_max_def retryAfterSeconds_def)

lemma full_window_reached:
  "snd (run emailRegex_test Map.empty (butlast six_requests)) = full_window"
proof -
  have five: "Suc (Suc (Suc (Suc (Suc 0)))) = 5"
    by simp
  show ?thesis
    by (simp add: six_requests_def post_contact_fresh_ok post_contact_live_ok
          no_live_window_def jane_valid windowMs_def limiter_max_def full_window_def five)
qed



subsection \<open>Claims about the endpoint\<close>

text \<open>
  C1, as amended. For every request that the rate limiter lets through and whose body
  lacks one of the four fields or has a name, subject or message whose length after
  trimming is outside its bounds (2 to 100, 5 to 200, 10 to 2000) or an e-mail address
  that the e-mail test rejects, the answer is 400 \<^verbatim>\<open>Validation error\<close> and its list of
  errors has one entry for every such field, in the order of the chains, not only the
  first. A field that is missing is such a field (for the e-mail address: when the e-mail
  test rejects the empty text).
\<close>

theorem every_offending_field_reported:
  assumes "fst (limiter st a now) = Pass" and "offending isEmail b \<noteq> []"
  shows "fst (post_contact isEmail st a now b tried)
           = validation_error (map (\<lambda>f. (f, ''Invalid value'')) (offending isEmail b))
         \<and> (\<not> isEmail [] \<longrightarrow>
              (\<forall>f \<in> set fields. b f = None \<longrightarrow> f \<in> set (offending isEmail b)))"
proof
  from assms(2) have "validation_errors isEmail b \<noteq> []"
    by (simp add: validation_errors_eq)
  then show "fst (post_contact isEmail st a now b tried)
           = validation_error (map (\<lambda>f. (f, ''Invalid value'')) (offending isEmail b))"
    using post_contact_Pass [OF limiter_fst_Pass [OF assms(1)], of isEmail b tried]
    by (simp add: handler_def validation_errors_eq)
  show "\<not> isEmail [] \<longrightarrow>
          (\<forall>f \<in> set fields. b f = None \<longrightarrow> f \<in> set (offending isEmail b))"
  proof (intro impI ballI)
    fix f
    assume "\<not> isEmail []" "f \<in> set fields" "b f = None"
    then show "f \<in> set (offending isEmail b)"
      by (simp add: missing_offends)
  qed
qed

theorem every_offending_field_reported_witness:
  "fst (limiter Map.empty ''203.0.113.7'' 0) = Pass
   \<and> offending emailRegex_test incomplete = [''subject'', ''message'']
   \<and> fst (post_contact emailRegex_test Map.empty ''203.0.113.7'' 0 incomplete Completes)
       = \<lparr>status = 400, success = False, res_message = ''Validation error'',
          errors = [(''subject'', ''Invalid value''), (''message'', ''Invalid value'')],
          retryAfter = None\<rparr>
   \<and> ''message'' \<in> set (offending emailRegex_test incomplete)"
proof -
  have p: "fst (limiter Map.empty ''203.0.113.7'' 0) = Pass"
    by (simp add: limiter_empty)
  have o: "offending emailRegex_test incomplete \<noteq> []"
    by (simp add: offending_incomplete)
  have m: "''message'' \<in> set fields" "incomplete ''message'' = None"
    by (simp_all add: fields_def incomplete_def)
  note t = every_offending_field_reported [OF p o, of Completes]
  from t have "fst (post_contact emailRegex_test Map.empty ''203.0.113.7'' 0 incomplete Completes)
       = validation_error
           (map (\<lambda>f. (f, ''Invalid value'')) (offending emailRegex_test incomplete))"
    by (rule conjunct1)
  moreover from t not_emailRegex_test_Nil m
  have "''message'' \<in> set (offending emailRegex_test incomplete)"
    by blast
  ultimately show ?thesis
    using p by (simp add: offending_incomplete validation_error_def)
qed

text \<open>
  C1 as stated fails in three ways. After five accepted requests the address is at its
  ceiling, and a request whose body has none of the four fields is answered 429, not 400.
  A first request whose name is outside the documented pattern, the other fields being
  valid, is answered 200: no chain tests the pattern. And a first request whose subject is
  \<open>Hi\<close> in bold markup is answered 200: the length is taken with the markup, and \<open>Hi\<close>
  alone is too short.
\<close>

theorem validation_first_counterexample:
  "snd (run emailRegex_test Map.empty (butlast six_requests)) = full_window
   \<and> offending emailRegex_test Map.empty = [''name'', ''email'', ''subject'', ''message'']
   \<and> fst (post_contact emailRegex_test full_window ''203.0.113.7'' 1000 Map.empty Completes)
       = too_many_requests 3599
   \<and> status (too_many_requests 3599) = 429
   \<and> numbered ''name'' = Some ''12345 <b>!!'' \<and> \<not> name_pattern ''12345 <b>!!''
   \<and> fst (post_contact emailRegex_test Map.empty ''203.0.113.7'' 0 numbered Completes)
       = message_sent
   \<and> tagged ''subject'' = Some ''<b>Hi</b>'' \<and> \<not> isLength 5 200 ''Hi''
   \<and> fst (post_contact emailRegex_test Map.empty ''203.0.113.7'' 0 tagged Completes)
       = message_sent
   \<and> status message_sent = 200"
proof -
  have "fst (post_contact emailRegex_test full_window ''203.0.113.7'' 1000 Map.empty Completes)
          = too_many_requests 3599"
    by (simp add: post_contact_def limiter_def lookup_window_def full_window_def windowMs_def
          limiter_max_def retryAfterSeconds_def)
  moreover have "fst (post_contact emailRegex_test Map.empty ''203.0.113.7'' 0 numbered Completes)
          = message_sent"
    by (simp add: post_contact_fresh_ok no_live_window_def numbered_valid)
  moreover have "fst (post_contact emailRegex_test Map.empty ''203.0.113.7'' 0 tagged Completes)
          = message_sent"
    by (simp add: post_contact_fresh_ok no_live_window_def tagged_valid)
  moreover have "numbered ''name'' = Some ''12345 <b>!!''" "tagged ''subject'' = Some ''<b>Hi</b>''"
    by (simp_all add: numbered_def tagged_def)
  ultimately show ?thesis
    by (simp add: full_window_reached offending_empty fields_def numbered_name
          too_many_requests_def message_sent_def isLength_def)
qed




text \<open>
  C3, as amended. The limiter runs before the validation chains: every request it lets
  through adds exactly one to the count of its source address, whatever validation does
  afterwards and whether the \<^verbatim>\<open>try\<close> block of the handler completes or throws. So a
  request that fails validation consumes one unit of quota, as does a request whose
  sending fails. The store a request leaves does not depend on its body or on what the
  handler does.
\<close>

theorem quota_counted_before_validation:
  "snd (post_contact isEmail st a now b tried) = snd (limiter st a now)
   \<and> (status (fst (post_contact isEmail st a now b tried)) \<noteq> 429 \<longrightarrow>
        quota_used (snd (post_contact isEmail st a now b tried)) a now = quota_used st a now + 1)"
  by (simp add: post_contact_store limiter_quota_Pass post_contact_status_429)

theorem quota_counted_before_validation_witness:
  "status (fst (post_contact emailRegex_test Map.empty ''203.0.113.7'' 0 jane Completes)) = 200
   \<and> quota_used Map.empty ''203.0.113.7'' 0 = 0
   \<and> quota_used
        (snd (post_contact emailRegex_test Map.empty ''203.0.113.7'' 0 jane Completes))
        ''203.0.113.7'' 0 = 1"
proof -
  have s: "status (fst (post_contact emailRegex_test Map.empty ''203.0.113.7'' 0 jane Completes))
             = 200"
    by (simp add: post_contact_fresh_ok no_live_window_def jane_valid message_sent_def)
  have q: "quota_used Map.empty ''203.0.113.7'' 0 = 0"
    by (simp add: quota_used_def lookup_window_def)
  from quota_counted_before_validation
         [of emailRegex_test Map.empty "''203.0.113.7''" 0 jane Completes]
  show ?thesis
    using s q by (simp add: limiter_empty quota_used_def lookup_window_def windowMs_def)
qed

text \<open>
  C3 as stated fails: a first request whose body has none of the four fields is answered
  400, and the address has used one unit of its quota.
\<close>

theorem quota_counterexample:
  "status (fst (post_contact emailRegex_test Map.empty ''203.0.113.7'' 0 Map.empty Completes)) = 400
   \<and> quota_used Map.empty ''203.0.113.7'' 0 = 0
   \<and> quota_used (snd (post_contact emailRegex_test Map.empty ''203.0.113.7'' 0 Map.empty Completes))
        ''203.0.113.7'' 0 = 1"
  by (simp add: post_contact_def limiter_def lookup_window_def quota_used_def limiter_max_def
        windowMs_def validation_errors_eq [unfolded validation_errors_def] offending_empty
        fields_def handler_def validation_error_def)




text \<open>
  C6. When a request of an address was rejected as rate limited, with \<open>r\<close> seconds to
  wait, a later request of that address, made once these seconds have passed (the window
  has fully elapsed) and before any other request of the address was let through (the
  store still holds the window the rejection left), with a valid body and a \<^verbatim>\<open>try\<close> block
  that completes, succeeds.
\<close>

theorem blocked_address_recovers:
  assumes blocked: "post_contact isEmail st a t b0 k0 = (too_many_requests r, st')"
    and later: "st'' a = st' a"
    and elapsed: "t + 1000 * r \<le> t'"
    and valid: "validation_errors isEmail b = []"
  shows "fst (post_contact isEmail st'' a t' b Completes) = message_sent"
proof -
  have "status (fst (post_contact isEmail st a t b0 k0)) = 429"
    by (simp add: blocked too_many_requests_def)
  then have "fst (limiter st a t) \<noteq> Pass"
    by (simp add: post_contact_status_429)
  then obtain r' s' where l: "limiter st a t = (Limited r', s')"
    by (cases "limiter st a t"; cases "fst (limiter st a t)") auto
  with blocked have "r' = r" "s' = st'"
    by (simp_all add: post_contact_Limited too_many_requests_def)
  with limiter_Limited [OF l] obtain w where
    w: "st a = Some w" "r = retryAfterSeconds w t" "st' = st"
    by blast
  from retryAfterSeconds_covers [of w t] elapsed w(2)
  have "windowStart w + windowMs \<le> t'"
    by simp
  with w later have "no_live_window st'' a t'"
    by (simp add: no_live_window_def)
  then show ?thesis
    using valid by (simp add: post_contact_fresh_ok)
qed

theorem blocked_address_recovers_witness:
  "post_contact emailRegex_test full_window ''203.0.113.7'' 1000 jane Completes
     = (too_many_requests 3599, full_window)
   \<and> (1000::nat) + 1000 * 3599 \<le> 3600000
   \<and> validation_errors emailRegex_test jane = []
   \<and> status (fst (post_contact emailRegex_test full_window ''203.0.113.7'' 3600000 jane Completes))
       = 200"
proof -
  have e: "(1000::nat) + 1000 * 3599 \<le> 3600000"
    by simp
  have s: "full_window ''203.0.113.7'' = full_window ''203.0.113.7''"
    by (rule refl)
  from blocked_address_recovers
         [where st'' = full_window, OF full_window_blocks s e jane_valid]
  have "fst (post_contact emailRegex_test full_window ''203.0.113.7'' 3600000 jane Completes)
          = message_sent" .
  then show ?thesis
    using full_window_blocks e jane_valid by (simp add: message_sent_def)
qed

end
